theory Spec2Isabelle
  imports Complex_Main
begin

section \<open>Prepayment amortisation: schedule loader and entry generator\<close>

text \<open>
  A shallow embedding of \<^verbatim>\<open>prepayment_automation.py\<close>: the function
  \<^verbatim>\<open>load_prepayment_schedule\<close>, which turns a CSV file into a data frame and
  the list of its month columns, and \<^verbatim>\<open>generate_accounting_entries\<close>, which
  turns the data frame and a target month into debit/credit postings.

  Conventions of the model.
  \<^item> Strings are ASCII character lists.
  \<^item> A raised exception is the \<open>Inl\<close> of a sum; the value returned is the \<open>Inr\<close>.
  \<^item> Console output (\<^verbatim>\<open>print\<close>) is not part of any returned value and is left out.
  \<^item> Amounts are the exact values the cells denote (type \<open>rat\<close>); the binary
    representation error of a double and the infinities are outside the model.
  \<^item> The CSV file is given as its lines, each already split into fields; an empty
    line is the empty list of fields.
\<close>

subsection \<open>Exceptions and cell values\<close>

datatype exn =
  FileNotFoundError | EmptyDataError | ParserError | ValueError | IndexError | TypeError

text \<open>
  The values a cell of the data frame holds: a string, a float, a nullable integer
  (\<^verbatim>\<open>Int64\<close>), the float \<^verbatim>\<open>nan\<close>, and \<^verbatim>\<open>pd.NA\<close>.
\<close>

datatype pyval = Str string | Float64 rat | Int64 int | NaN | NA

datatype source = Missing | Csv "string list list"

record dataframe =
  columns :: "string list"
  data :: "pyval list list"

record entry =
  Date :: string
  Description :: string
  Reference :: string
  Account :: string
  Amount :: rat

subsection \<open>Characters, digits and decimal numerals\<close>

definition isdigit_char :: "char \<Rightarrow> bool" where
  "isdigit_char c = (let n = (of_char c :: nat) in 48 \<le> n \<and> n \<le> 57)"

definition isalpha_char :: "char \<Rightarrow> bool" where
  "isalpha_char c =
     (let n = (of_char c :: nat) in (65 \<le> n \<and> n \<le> 90) \<or> (97 \<le> n \<and> n \<le> 122))"

text \<open>\<^verbatim>\<open>str.isalpha()\<close> and \<^verbatim>\<open>str.isdigit()\<close>: false on the empty string.\<close>

definition isalpha :: "string \<Rightarrow> bool" where
  "isalpha s = (s \<noteq> [] \<and> list_all isalpha_char s)"

definition isdigit :: "string \<Rightarrow> bool" where
  "isdigit s = (s \<noteq> [] \<and> list_all isdigit_char s)"

definition digit_val :: "char \<Rightarrow> nat" where
  "digit_val c = of_char c - 48"

definition digit_char :: "nat \<Rightarrow> char" where
  "digit_char d = char_of (48 + d)"

definition digits_val :: "string \<Rightarrow> nat" where
  "digits_val ds = foldl (\<lambda>a c. 10 * a + digit_val c) 0 ds"

fun str_nat :: "nat \<Rightarrow> string" where
  "str_nat n = (if n < 10 then [digit_char n] else str_nat (n div 10) @ [digit_char (n mod 10)])"

text \<open>\<^verbatim>\<open>str(n)\<close> of a Python integer.\<close>

definition str_int :: "int \<Rightarrow> string" where
  "str_int n = (if n < 0 then CHR ''-'' # str_nat (nat (- n)) else str_nat (nat n))"

text \<open>
  Zero-padded fields of \<^verbatim>\<open>strftime\<close>: \<^verbatim>\<open>%d\<close>, \<^verbatim>\<open>%m\<close> and \<^verbatim>\<open>%y\<close> (two digits)
  and \<^verbatim>\<open>%Y\<close> (four digits, as the Python documentation gives it).
\<close>

definition pad2 :: "nat \<Rightarrow> string" where
  "pad2 n = (if n < 10 then CHR ''0'' # str_nat n else str_nat n)"

definition pad4 :: "nat \<Rightarrow> string" where
  "pad4 n = replicate (4 - length (str_nat n)) CHR ''0'' @ str_nat n"

text \<open>\<^verbatim>\<open>str.split(sep)\<close> for a one-character separator.\<close>

fun split_str :: "char \<Rightarrow> string \<Rightarrow> string list" where
  "split_str sep [] = [[]]"
| "split_str sep (c # cs) =
     (if c = sep then [] # split_str sep cs
      else (case split_str sep cs of [] \<Rightarrow> [[c]] | p # ps \<Rightarrow> (c # p) # ps))"

subsection \<open>Reading numbers\<close>

text \<open>
  The number reader behind \<^verbatim>\<open>pd.to_numeric\<close> and the type inference of
  \<^verbatim>\<open>read_csv\<close> is library code: the loader takes it as a parameter \<open>num\<close>, which
  gives the value of a cell that reads as a (finite) number and \<open>None\<close> for any other
  cell. The reader of plain decimal literals below (an optional sign, digits, an optional
  fraction) is the one the examples use.
\<close>

definition parse_unsigned :: "string \<Rightarrow> rat option" where
  "parse_unsigned s =
     (let ip = takeWhile isdigit_char s; rest = dropWhile isdigit_char s in
      case rest of
        [] \<Rightarrow> if ip = [] then None else Some (of_nat (digits_val ip))
      | c # fp \<Rightarrow>
          if c = CHR ''.'' \<and> list_all isdigit_char fp \<and> (ip \<noteq> [] \<or> fp \<noteq> [])
          then Some (of_nat (digits_val ip) + of_nat (digits_val fp) / 10 ^ length fp)
          else None)"

definition parse_number :: "string \<Rightarrow> rat option" where
  "parse_number s =
     (case s of
        [] \<Rightarrow> None
      | c # r \<Rightarrow>
          if c = CHR ''-'' then map_option uminus (parse_unsigned r)
          else if c = CHR ''+'' then parse_unsigned r
          else parse_unsigned s)"

text \<open>\<^verbatim>\<open>int(s)\<close> of a string: an optional sign and decimal digits, else \<^verbatim>\<open>ValueError\<close>.\<close>

definition int_of_str :: "string \<Rightarrow> exn + int" where
  "int_of_str s =
     (case s of
        [] \<Rightarrow> Inl ValueError
      | c # r \<Rightarrow>
          if c = CHR ''-'' then (if isdigit r then Inr (- int (digits_val r)) else Inl ValueError)
          else if c = CHR ''+'' then (if isdigit r then Inr (int (digits_val r)) else Inl ValueError)
          else if isdigit s then Inr (int (digits_val s)) else Inl ValueError)"

subsection \<open>The data frame\<close>

text \<open>The strings \<^verbatim>\<open>read_csv\<close> reads as missing (its default \<^verbatim>\<open>na_values\<close>).\<close>

definition na_values :: "string list" where
  "na_values =
     ['''', ''#N/A'', ''#N/A N/A'', ''#NA'', ''-1.#IND'', ''-1.#QNAN'', ''-NaN'', ''-nan'',
      ''1.#IND'', ''1.#QNAN'', ''<NA>'', ''N/A'', ''NA'', ''NULL'', ''NaN'', ''None'',
      ''n/a'', ''nan'', ''null'']"

definition read_cell :: "string \<Rightarrow> pyval" where
  "read_cell s = (if s \<in> set na_values then NaN else Str s)"

text \<open>
  \<^verbatim>\<open>pd.read_csv(file_path, skiprows=2)\<close>. The first two lines are skipped, then
  blank lines; the first line left is the header. A missing file raises
  \<^verbatim>\<open>FileNotFoundError\<close>, no header line \<^verbatim>\<open>EmptyDataError\<close>, a row with more fields
  than the header \<^verbatim>\<open>ParserError\<close>; a short row is filled with missing cells.
  Cells are kept as text here and read as numbers by \<open>to_numeric\<close> where the program
  uses them as numbers. Column labels are kept as written: the renaming of
  duplicate or empty header labels, and an implicit index column, are outside the
  model.
\<close>

definition read_csv :: "source \<Rightarrow> exn + dataframe" where
  "read_csv src =
     (case src of
        Missing \<Rightarrow> Inl FileNotFoundError
      | Csv lines \<Rightarrow>
          (case filter (\<lambda>l. l \<noteq> []) (drop 2 lines) of
             [] \<Rightarrow> Inl EmptyDataError
           | hdr # body \<Rightarrow>
               if list_ex (\<lambda>r. length hdr < length r) body then Inl ParserError
               else Inr \<lparr>columns = hdr,
                         data = map (\<lambda>r. map read_cell (r @ replicate (length hdr - length r) [])) body\<rparr>))"

text \<open>\<^verbatim>\<open>df.iloc[-1, 0]\<close>: \<^verbatim>\<open>IndexError\<close> without a row or without a column.\<close>

definition iloc_last_first :: "dataframe \<Rightarrow> exn + pyval" where
  "iloc_last_first df =
     (if data df = [] then Inl IndexError
      else (case last (data df) of [] \<Rightarrow> Inl IndexError | v # _ \<Rightarrow> Inr v))"

text \<open>\<^verbatim>\<open>df.drop(df.tail(1).index)\<close>\<close>

definition drop_tail :: "dataframe \<Rightarrow> dataframe" where
  "drop_tail df = df\<lparr>data := butlast (data df)\<rparr>"

definition rename_label :: "string \<Rightarrow> string" where
  "rename_label l =
     (if l = ''Items'' then ''Prepayment Item''
      else if l = ''Invoice number'' then ''Reference''
      else if l = ''Invoice amount'' then ''Total Amount''
      else l)"

definition rename :: "dataframe \<Rightarrow> dataframe" where
  "rename df = df\<lparr>columns := map rename_label (columns df)\<rparr>"

text \<open>\<^verbatim>\<open>row.get(key, default)\<close> on a row with the frame's column labels.\<close>

definition row_get :: "string list \<Rightarrow> pyval list \<Rightarrow> string \<Rightarrow> pyval \<Rightarrow> pyval" where
  "row_get cols row key dflt = (case map_of (zip cols row) key of None \<Rightarrow> dflt | Some v \<Rightarrow> v)"

text \<open>\<^verbatim>\<open>df[c]\<close> for a label that is a column.\<close>

definition column :: "dataframe \<Rightarrow> string \<Rightarrow> pyval list" where
  "column df c = map (\<lambda>row. row_get (columns df) row c NaN) (data df)"

text \<open>\<^verbatim>\<open>df[c] = vs\<close>: overwrites the column, or appends a new one.\<close>

definition assign_column :: "dataframe \<Rightarrow> string \<Rightarrow> pyval list \<Rightarrow> dataframe" where
  "assign_column df c vs =
     (if c \<in> set (columns df)
      then df\<lparr>data := map2 (\<lambda>row v. map2 (\<lambda>l x. if l = c then v else x) (columns df) row) (data df) vs\<rparr>
      else df\<lparr>columns := columns df @ [c], data := map2 (\<lambda>row v. row @ [v]) (data df) vs\<rparr>)"

text \<open>\<^verbatim>\<open>df[c] = v\<close> for a scalar.\<close>

definition assign_scalar :: "dataframe \<Rightarrow> string \<Rightarrow> pyval \<Rightarrow> dataframe" where
  "assign_scalar df c v = assign_column df c (replicate (length (data df)) v)"

text \<open>\<^verbatim>\<open>pd.to_numeric(..., errors='coerce')\<close> on one cell.\<close>

definition to_numeric :: "(string \<Rightarrow> rat option) \<Rightarrow> pyval \<Rightarrow> pyval" where
  "to_numeric num v =
     (case v of
        Str s \<Rightarrow> (case num s of Some q \<Rightarrow> Float64 q | None \<Rightarrow> NaN)
      | Float64 q \<Rightarrow> Float64 q
      | Int64 n \<Rightarrow> Int64 n
      | NaN \<Rightarrow> NaN
      | NA \<Rightarrow> NaN)"

text \<open>
  \<^verbatim>\<open>.astype('Int64')\<close>: a whole number becomes an integer, a missing value
  \<^verbatim>\<open>pd.NA\<close>; a float with a fractional part raises \<^verbatim>\<open>TypeError\<close> (cannot safely
  cast non-equivalent float64 to int64), and so the whole conversion fails.
\<close>

definition cast_Int64 :: "pyval \<Rightarrow> exn + pyval" where
  "cast_Int64 v =
     (case v of
        Float64 q \<Rightarrow> if q = of_int \<lfloor>q\<rfloor> then Inr (Int64 \<lfloor>q\<rfloor>) else Inl TypeError
      | Int64 n \<Rightarrow> Inr (Int64 n)
      | NaN \<Rightarrow> Inr NA
      | NA \<Rightarrow> Inr NA
      | Str s \<Rightarrow> Inl TypeError)"

fun astype_Int64 :: "pyval list \<Rightarrow> exn + pyval list" where
  "astype_Int64 [] = Inr []"
| "astype_Int64 (v # vs) =
     (case cast_Int64 v of
        Inl e \<Rightarrow> Inl e
      | Inr w \<Rightarrow> (case astype_Int64 vs of Inl e \<Rightarrow> Inl e | Inr ws \<Rightarrow> Inr (w # ws)))"

text \<open>\<^verbatim>\<open>.fillna(0)\<close> on one cell.\<close>

definition fillna0 :: "pyval \<Rightarrow> pyval" where
  "fillna0 v = (if v = NaN \<or> v = NA then Float64 0 else v)"

subsection \<open>The loader\<close>

text \<open>
  The month-column test of the list comprehension:
  \<^verbatim>\<open>len(col) == 6 and '-' in col and col.split('-')[0].isalpha() and col.split('-')[1].isdigit()\<close>.
  With a dash in the label the split has at least two parts.
\<close>

definition is_month_column :: "string \<Rightarrow> bool" where
  "is_month_column col =
     (length col = 6 \<and> CHR ''-'' \<in> set col \<and>
      (case split_str CHR ''-'' col of
         a # b # _ \<Rightarrow> isalpha a \<and> isdigit b
       | _ \<Rightarrow> False))"

text \<open>
  The reference block: with a \<^verbatim>\<open>Reference\<close> column, \<^verbatim>\<open>to_numeric\<close> then
  \<^verbatim>\<open>astype('Int64')\<close>; without, the column is created with the string
  \<^verbatim>\<open>'N/A'\<close> in every row. With two columns of that label \<^verbatim>\<open>df['Reference']\<close> is a
  frame and \<^verbatim>\<open>to_numeric\<close> raises \<^verbatim>\<open>TypeError\<close>.
\<close>

definition coerce_reference :: "(string \<Rightarrow> rat option) \<Rightarrow> dataframe \<Rightarrow> exn + dataframe" where
  "coerce_reference num df =
     (if ''Reference'' \<in> set (columns df)
      then (if 1 < count_list (columns df) ''Reference'' then Inl TypeError
            else (case astype_Int64 (map (to_numeric num) (column df ''Reference'')) of
                    Inl e \<Rightarrow> Inl e
                  | Inr vs \<Rightarrow> Inr (assign_column df ''Reference'' vs)))
      else Inr (assign_scalar df ''Reference'' (Str ''N/A'')))"

definition coerce_month :: "(string \<Rightarrow> rat option) \<Rightarrow> string \<Rightarrow> dataframe \<Rightarrow> dataframe" where
  "coerce_month num col df =
     assign_column df col (map (fillna0 \<circ> to_numeric num) (column df col))"

text \<open>The body of the \<^verbatim>\<open>try\<close> block of \<^verbatim>\<open>load_prepayment_schedule\<close>.\<close>

definition load_try :: "(string \<Rightarrow> rat option) \<Rightarrow> source \<Rightarrow> exn + dataframe \<times> string list" where
  "load_try num src =
     (case read_csv src of
        Inl e \<Rightarrow> Inl e
      | Inr df0 \<Rightarrow>
          (case iloc_last_first df0 of
             Inl e \<Rightarrow> Inl e
           | Inr cell \<Rightarrow>
               (let df1 = (if cell = Str ''Balance'' then drop_tail df0 else df0);
                    df2 = rename df1
                in case coerce_reference num df2 of
                     Inl e \<Rightarrow> Inl e
                   | Inr df3 \<Rightarrow>
                       (let month_columns = filter is_month_column (columns df3)
                        in if month_columns = [] then Inl ValueError
                           else (let df4 = fold (coerce_month num) month_columns df3;
                                     df5 = (if ''Prepayment Item'' \<notin> set (columns df4)
                                            then assign_scalar df4 ''Prepayment Item'' (Str ''Generic Item'')
                                            else df4)
                                 in Inr (df5, month_columns))))))"

text \<open>
  \<^verbatim>\<open>load_prepayment_schedule\<close>: every handler of the \<^verbatim>\<open>try\<close> block returns
  \<^verbatim>\<open>None, None\<close>, here \<open>None\<close>; the normal return is the pair of the frame and
  its month columns.
\<close>

definition load_prepayment_schedule ::
    "(string \<Rightarrow> rat option) \<Rightarrow> source \<Rightarrow> (dataframe \<times> string list) option" where
  "load_prepayment_schedule num src =
     (case load_try num src of
        Inr r \<Rightarrow> Some r
      | Inl FileNotFoundError \<Rightarrow> None
      | Inl EmptyDataError \<Rightarrow> None
      | Inl ValueError \<Rightarrow> None
      | Inl _ \<Rightarrow> None)"

subsection \<open>Calendar and period strings\<close>

text \<open>
  \<^verbatim>\<open>datetime.strptime(s, '%Y-%m')\<close>. The format is matched as the regular expression
  \<^verbatim>\<open>(\d\d\d\d)-(1[0-2]|0[1-9]|[1-9])\<close> at the start of the string, the alternatives
  of the month tried in that order; text left over after the match, no match, or the
  year 0 raise \<^verbatim>\<open>ValueError\<close>. The result is the year and the month (the day is 1).
\<close>

definition match_month :: "string \<Rightarrow> (nat \<times> string) option" where
  "match_month s =
     (case s of
        [] \<Rightarrow> None
      | c1 # r1 \<Rightarrow>
          (case r1 of
             c2 # r2 \<Rightarrow>
               if c1 = CHR ''1'' \<and> c2 \<in> set ''012'' then Some (10 + digit_val c2, r2)
               else if c1 = CHR ''0'' \<and> c2 \<in> set ''123456789'' then Some (digit_val c2, r2)
               else if c1 \<in> set ''123456789'' then Some (digit_val c1, r1)
               else None
           | [] \<Rightarrow> if c1 \<in> set ''123456789'' then Some (digit_val c1, r1) else None))"

definition strptime_Ym :: "string \<Rightarrow> exn + nat \<times> nat" where
  "strptime_Ym s =
     (if length s < 5 \<or> \<not> list_all isdigit_char (take 4 s) \<or> s ! 4 \<noteq> CHR ''-''
      then Inl ValueError
      else (case match_month (drop 5 s) of
              None \<Rightarrow> Inl ValueError
            | Some (m, rest) \<Rightarrow>
                if rest \<noteq> [] then Inl ValueError
                else if digits_val (take 4 s) = 0 then Inl ValueError
                else Inr (digits_val (take 4 s), m)))"

text \<open>\<^verbatim>\<open>%b\<close> in the C locale.\<close>

definition month_abbr :: "nat \<Rightarrow> string" where
  "month_abbr m =
     [''Jan'', ''Feb'', ''Mar'', ''Apr'', ''May'', ''Jun'',
      ''Jul'', ''Aug'', ''Sep'', ''Oct'', ''Nov'', ''Dec''] ! (m - 1)"

text \<open>\<^verbatim>\<open>target_dt.strftime('%b-%y')\<close>\<close>

definition strftime_b_y :: "nat \<times> nat \<Rightarrow> string" where
  "strftime_b_y dt = (case dt of (y, m) \<Rightarrow> month_abbr m @ ''-'' @ pad2 (y mod 100))"

text \<open>
  \<^verbatim>\<open>calendar.isleap\<close> and \<^verbatim>\<open>calendar.monthrange(y, m)[1]\<close>, which
  \<^verbatim>\<open>relativedelta\<close> uses.
\<close>

definition isleap :: "nat \<Rightarrow> bool" where
  "isleap y = (y mod 4 = 0 \<and> (y mod 100 \<noteq> 0 \<or> y mod 400 = 0))"

definition mdays :: "nat list" where
  "mdays = [0, 31, 28, 31, 30, 31, 30, 31, 31, 30, 31, 30, 31]"

definition monthrange :: "nat \<Rightarrow> nat \<Rightarrow> nat" where
  "monthrange y m = mdays ! m + (if m = 2 \<and> isleap y then 1 else 0)"

text \<open>
  \<^verbatim>\<open>target_dt + relativedelta(day=31)\<close>: the year and the month stay, the day is 31
  cut down to the length of the month.
\<close>

definition relativedelta_day31 :: "nat \<times> nat \<Rightarrow> nat \<times> nat \<times> nat" where
  "relativedelta_day31 dt = (case dt of (y, m) \<Rightarrow> (y, m, min (monthrange y m) 31))"

text \<open>\<^verbatim>\<open>accounting_entry_date.strftime('%d/%m/%Y')\<close>\<close>

definition strftime_dmY :: "nat \<times> nat \<times> nat \<Rightarrow> string" where
  "strftime_dmY dt = (case dt of (y, m, d) \<Rightarrow> pad2 d @ ''/'' @ pad2 m @ ''/'' @ pad4 y)"

subsection \<open>The entry generator\<close>

definition notna :: "pyval \<Rightarrow> bool" where
  "notna v = (v \<noteq> NaN \<and> v \<noteq> NA)"

text \<open>\<^verbatim>\<open>int(raw_reference)\<close>\<close>

definition py_int :: "pyval \<Rightarrow> exn + int" where
  "py_int v =
     (case v of
        Int64 n \<Rightarrow> Inr n
      | Float64 q \<Rightarrow> Inr (if 0 \<le> q then \<lfloor>q\<rfloor> else \<lceil>q\<rceil>)
      | Str s \<Rightarrow> int_of_str s
      | NaN \<Rightarrow> Inl ValueError
      | NA \<Rightarrow> Inl TypeError)"

text \<open>\<^verbatim>\<open>str(int(raw_reference)) if pd.notna(raw_reference) else 'N/A'\<close>\<close>

definition reference_str :: "pyval \<Rightarrow> exn + string" where
  "reference_str raw =
     (if notna raw
      then (case py_int raw of Inl e \<Rightarrow> Inl e | Inr n \<Rightarrow> Inr (str_int n))
      else Inr ''N/A'')"

text \<open>
  The text of a float in an f-string, for the decimal the value denotes: the integer
  part, a point and the fractional digits, at most 17 of them and at least one.
\<close>

fun frac_digits :: "nat \<Rightarrow> rat \<Rightarrow> string" where
  "frac_digits 0 r = []"
| "frac_digits (Suc k) r =
     (if r = 0 then []
      else digit_char (nat \<lfloor>r * 10\<rfloor>) # frac_digits k (r * 10 - of_int \<lfloor>r * 10\<rfloor>))"

definition str_float :: "rat \<Rightarrow> string" where
  "str_float q =
     (if q < 0 then ''-'' else []) @ str_nat (nat \<lfloor>\<bar>q\<bar>\<rfloor>) @ ''.'' @
     (let fs = frac_digits 17 (\<bar>q\<bar> - of_int \<lfloor>\<bar>q\<bar>\<rfloor>) in if fs = [] then ''0'' else fs)"

text \<open>The text of a cell value interpolated in an f-string.\<close>

definition format_val :: "pyval \<Rightarrow> string" where
  "format_val v =
     (case v of
        Str s \<Rightarrow> s
      | Float64 q \<Rightarrow> str_float q
      | Int64 n \<Rightarrow> str_int n
      | NaN \<Rightarrow> ''nan''
      | NA \<Rightarrow> ''<NA>'')"

text \<open>
  The number a cell holds where the program takes \<^verbatim>\<open>abs\<close> of it and compares:
  \<^verbatim>\<open>nan\<close> compares false (\<open>None\<close>); a string has no \<^verbatim>\<open>abs\<close> and the truth value of
  \<^verbatim>\<open>pd.NA\<close> is ambiguous, both \<^verbatim>\<open>TypeError\<close>.
\<close>

definition amount_of :: "pyval \<Rightarrow> exn + rat option" where
  "amount_of v =
     (case v of
        Float64 q \<Rightarrow> Inr (Some q)
      | Int64 n \<Rightarrow> Inr (Some (of_int n))
      | NaN \<Rightarrow> Inr None
      | NA \<Rightarrow> Inl TypeError
      | Str s \<Rightarrow> Inl TypeError)"

text \<open>\<^verbatim>\<open>round(x, 2)\<close> on the decimal value: to the nearest hundredth, a tie to the even one.\<close>

definition round_half_even :: "rat \<Rightarrow> int" where
  "round_half_even y =
     (let f = \<lfloor>y\<rfloor>; d = y - of_int f in
      if d < 1 / 2 then f else if 1 / 2 < d then f + 1 else if even f then f else f + 1)"

definition round2 :: "rat \<Rightarrow> rat" where
  "round2 x = of_int (round_half_even (x * 100)) / 100"

text \<open>The body of the loop over the rows: the entries one row appends.\<close>

definition row_entries :: "string \<Rightarrow> string \<Rightarrow> string list \<Rightarrow> pyval list \<Rightarrow> exn + entry list" where
  "row_entries date_str target_month_col_name cols row =
     (let prepayment_item = row_get cols row ''Prepayment Item'' (Str ''Unknown Item'');
          raw_reference = row_get cols row ''Reference'' NA
      in case reference_str raw_reference of
           Inl e \<Rightarrow> Inl e
         | Inr ref \<Rightarrow>
             (case amount_of (row_get cols row target_month_col_name (Int64 0)) of
                Inl e \<Rightarrow> Inl e
              | Inr None \<Rightarrow> Inr []
              | Inr (Some monthly_amortization) \<Rightarrow>
                  if 5 / 1000 < \<bar>monthly_amortization\<bar>
                  then (let debit_amount = \<bar>round2 monthly_amortization\<bar> in
                        Inr [\<lparr>Date = date_str,
                              Description = ''Prepayment amortisation for '' @ format_val prepayment_item,
                              Reference = ref, Account = ''EXP001'', Amount = debit_amount\<rparr>,
                             \<lparr>Date = date_str,
                              Description = ''Prepayment amortisation for '' @ format_val prepayment_item,
                              Reference = ref, Account = ''PRE001'', Amount = - debit_amount\<rparr>])
                  else Inr []))"

text \<open>\<^verbatim>\<open>for index, row in schedule_df.iterrows()\<close>: an exception ends the loop and the call.\<close>

fun rows_loop :: "(pyval list \<Rightarrow> exn + entry list) \<Rightarrow> pyval list list \<Rightarrow> entry list \<Rightarrow> exn + entry list" where
  "rows_loop body [] entries = Inr entries"
| "rows_loop body (row # rows) entries =
     (case body row of
        Inl e \<Rightarrow> Inl e
      | Inr new \<Rightarrow> rows_loop body rows (entries @ new))"

text \<open>
  \<^verbatim>\<open>generate_accounting_entries\<close>: a \<^verbatim>\<open>ValueError\<close> of \<^verbatim>\<open>strptime\<close> is caught and the
  empty list returned; a target month that is no month column returns the empty list
  too; otherwise the loop runs, and an exception in it leaves the function.
\<close>

definition generate_accounting_entries :: "dataframe \<Rightarrow> string list \<Rightarrow> string \<Rightarrow> exn + entry list" where
  "generate_accounting_entries schedule_df month_columns target_month_str =
     (case strptime_Ym target_month_str of
        Inl e \<Rightarrow> if e = ValueError then Inr [] else Inl e
      | Inr target_dt \<Rightarrow>
          (let target_month_col_name = strftime_b_y target_dt;
               accounting_entry_date = relativedelta_day31 target_dt
           in if target_month_col_name \<notin> set month_columns then Inr []
              else rows_loop
                     (row_entries (strftime_dmY accounting_entry_date) target_month_col_name
                        (columns schedule_df))
                     (data schedule_df) []))"

subsection \<open>Notions of the specification\<close>

text \<open>
  The month-column rule in the specification's words: exactly six characters, a
  single dash, three alphabetic characters before it and two numeric ones after it.
\<close>

definition month_label_spec :: "string \<Rightarrow> bool" where
  "month_label_spec col =
     (length col = 6 \<and> count_list col CHR ''-'' = 1 \<and> col ! 3 = CHR ''-'' \<and>
      list_all isalpha_char (take 3 col) \<and> list_all isdigit_char (drop 4 col))"

text \<open>
  A schedule record for a month column, as the specification's data model has it: the
  reference is a whole number or missing, the amount of the month a number.
\<close>

definition schedule_record :: "string list \<Rightarrow> string \<Rightarrow> pyval list \<Rightarrow> bool" where
  "schedule_record cols col row =
     ((case row_get cols row ''Reference'' NA of
         Int64 n \<Rightarrow> True | NA \<Rightarrow> True | _ \<Rightarrow> False) \<and>
      (case row_get cols row col (Int64 0) of
         Float64 q \<Rightarrow> True | _ \<Rightarrow> False))"

text \<open>The amortisation amount of a record for a month column.\<close>

definition amortization :: "string list \<Rightarrow> string \<Rightarrow> pyval list \<Rightarrow> rat" where
  "amortization cols col row =
     (case row_get cols row col (Int64 0) of
        Float64 q \<Rightarrow> q | Int64 n \<Rightarrow> of_int n | _ \<Rightarrow> 0)"


text \<open>The reference of a record as text: the plain integer, or the marker for a missing one.\<close>

definition reference_text :: "pyval \<Rightarrow> string" where
  "reference_text v = (case v of Int64 n \<Rightarrow> str_int n | _ \<Rightarrow> ''N/A'')"

text \<open>
  The postings of one schedule record for a month column and a posting date: none for
  an amount at or below the threshold, else the debit and the credit.
\<close>

definition record_postings :: "string \<Rightarrow> string \<Rightarrow> string list \<Rightarrow> pyval list \<Rightarrow> entry list" where
  "record_postings d col cols row =
     (if 5 / 1000 < \<bar>amortization cols col row\<bar>
      then [\<lparr>Date = d,
              Description = ''Prepayment amortisation for '' @
                format_val (row_get cols row ''Prepayment Item'' (Str ''Unknown Item'')),
              Reference = reference_text (row_get cols row ''Reference'' NA),
              Account = ''EXP001'', Amount = \<bar>round2 (amortization cols col row)\<bar>\<rparr>,
            \<lparr>Date = d,
              Description = ''Prepayment amortisation for '' @
                format_val (row_get cols row ''Prepayment Item'' (Str ''Unknown Item'')),
              Reference = reference_text (row_get cols row ''Reference'' NA),
              Account = ''PRE001'', Amount = - \<bar>round2 (amortization cols col row)\<bar>\<rparr>]
      else [])"

text \<open>A frame whose rows all have one cell for each column.\<close>

definition rectangular :: "dataframe \<Rightarrow> bool" where
  "rectangular df = list_all (\<lambda>row. length row = length (columns df)) (data df)"

subsection \<open>Example inputs\<close>


definition example_no_reference :: source where
  "example_no_reference =
     Csv [[''Prepayment schedule''], [''FY24'', ''draft''],
          [''Items'', ''Jan-24''],
          [''Insurance'', ''-100.00'']]"

definition example_no_months :: source where
  "example_no_months =
     Csv [[''Prepayment schedule''], [''FY24'', ''draft''],
          [''Items'', ''Invoice number'', ''Total''],
          [''Insurance'', ''1001'', ''-100.00'']]"

definition example_fractional :: source where
  "example_fractional =
     Csv [[''Prepayment schedule''], [''FY24'', ''draft''],
          [''Items'', ''Invoice number'', ''Jan-24''],
          [''Insurance'', ''1001'', ''-100.00''],
          [''Rent'', ''462.5'', ''-50.00''],
          [''Balance'', [], ''-150'']]"

definition example_whole :: source where
  "example_whole =
     Csv [[''Prepayment schedule''], [''FY24'', ''draft''],
          [''Items'', ''Invoice number'', ''Jan-24''],
          [''Insurance'', ''1001'', ''-100.00''],
          [''Rent'', ''462'', ''-50.00''],
          [''Balance'', [], ''-150'']]"

text \<open>A loaded schedule of three records, the second one with negligible amounts.\<close>

definition example_schedule :: dataframe where
  "example_schedule =
     \<lparr>columns = [''Prepayment Item'', ''Reference'', ''Jan-24'', ''Feb-24''],
      data = [[Str ''Insurance'', Int64 1001, Float64 (- 100), Float64 (- 100)],
              [Str ''Noise'', NA, Float64 (3 / 1000), Float64 0],
              [Str ''Rent'', NA, Float64 (6 / 1000), Float64 (- (25125 / 1000))]]\<rparr>"

definition example_months :: "string list" where
  "example_months = [''Jan-24'', ''Feb-24'']"

section \<open>Properties of the entry generator\<close>

declare str_nat.simps [simp del]

subsection \<open>The loop over the rows\<close>

lemma strptime_Ym_raises: "strptime_Ym s = Inl e \<Longrightarrow> e = ValueError"
  by (auto simp: strptime_Ym_def split: if_splits option.splits)

lemma rows_loop_concat:
  "\<forall>row\<in>set rows. body row = Inr (g row) \<Longrightarrow>
   rows_loop body rows acc = Inr (acc @ concat (map g rows))"
  by (induction rows arbitrary: acc) simp_all


lemma concat_if_filter:
  "concat (map (\<lambda>r. if P r then f r else []) xs) = concat (map f (filter P xs))"
  by (induction xs) simp_all

lemma length_concat_pairs:
  "length (concat (map (\<lambda>r. [D r, C r]) xs)) = 2 * length xs"
  by (induction xs) simp_all

lemma nth_concat_pairs:
  "i < length xs \<Longrightarrow>
   concat (map (\<lambda>r. [D r, C r]) xs) ! (2 * i) = D (xs ! i) \<and>
   concat (map (\<lambda>r. [D r, C r]) xs) ! (2 * i + 1) = C (xs ! i)"
proof (induction xs arbitrary: i)
  case Nil
  then show ?case by simp
next
  case (Cons x xs)
  show ?case
  proof (cases i)
    case 0
    then show ?thesis by simp
  next
    case (Suc j)
    with Cons.prems have "j < length xs" by simp
    from Cons.IH [OF this] Suc show ?thesis by simp
  qed
qed

subsection \<open>Rounding to hundredths\<close>

lemma round_half_even_near:
  "\<bar>of_int (round_half_even y) - y\<bar> \<le> 1 / 2"
proof -
  have "of_int \<lfloor>y\<rfloor> \<le> y" "y < of_int \<lfloor>y\<rfloor> + 1" by linarith+
  then show ?thesis
    unfolding round_half_even_def Let_def by (auto simp: abs_le_iff)
qed

lemma round_half_even_nonzero:
  assumes "1 / 2 < \<bar>y\<bar>"
  shows "round_half_even y \<noteq> 0"
proof
  assume "round_half_even y = 0"
  with round_half_even_near [of y] have "\<bar>y\<bar> \<le> 1 / 2" by simp
  with assms show False by simp
qed







lemma round2_pos: 
  assumes "5 / 1000 < \<bar>x\<bar>"
  shows "0 < \<bar>round2 x\<bar>"
proof -
  from assms have "1 / 2 < \<bar>x * 100\<bar>" by (simp add: abs_mult)
  then have "round_half_even (x * 100) \<noteq> 0" by (rule round_half_even_nonzero)
  then show ?thesis by (simp add: round2_def)
qed


subsection \<open>Generation over schedule records\<close>

lemma row_entries_schedule_record:
  assumes "schedule_record cols col row"
  shows "row_entries d col cols row = Inr (record_postings d col cols row)"
  using assms
  unfolding schedule_record_def row_entries_def amortization_def reference_text_def
    reference_str_def notna_def py_int_def amount_of_def record_postings_def Let_def
  by (auto split: pyval.splits)

lemma generate_schedule_records:
  assumes p: "strptime_Ym t = Inr dt"
    and c: "strftime_b_y dt \<in> set mc"
    and r: "\<forall>row\<in>set (data df). schedule_record (columns df) (strftime_b_y dt) row"
  shows "generate_accounting_entries df mc t =
     Inr (concat (map (record_postings (strftime_dmY (relativedelta_day31 dt)) (strftime_b_y dt)
                         (columns df)) (data df)))"
proof -
  have "rows_loop (row_entries (strftime_dmY (relativedelta_day31 dt)) (strftime_b_y dt) (columns df))
          (data df) [] =
        Inr ([] @ concat (map (record_postings (strftime_dmY (relativedelta_day31 dt))
                                 (strftime_b_y dt) (columns df)) (data df)))"
    by (rule rows_loop_concat) (use r in \<open>simp add: row_entries_schedule_record\<close>)
  with p c show ?thesis
    by (simp add: generate_accounting_entries_def Let_def)
qed

text \<open>
  Claim C3. For a target month that is a month column of the schedule, generation over
  schedule records returns, for every record whose amount for that month is above the
  threshold, exactly two entries, the pairs in the order of the records and the debit
  before the credit: the debit on account EXP001 with a positive amount, the credit on
  account PRE001, the two amounts summing to zero, and date, description and reference
  equal in both.
\<close>

theorem balanced_pairs_in_record_order:
  assumes "strptime_Ym t = Inr dt"
    and "strftime_b_y dt \<in> set mc"
    and "\<forall>row\<in>set (data df). schedule_record (columns df) (strftime_b_y dt) row"
  shows "\<exists>es. generate_accounting_entries df mc t = Inr es \<and>
     (let rs = filter (\<lambda>row. 5 / 1000 < \<bar>amortization (columns df) (strftime_b_y dt) row\<bar>) (data df)
      in length es = 2 * length rs \<and>
         (\<forall>i<length rs.
            let debit = es ! (2 * i); credit = es ! (2 * i + 1) in
              Account debit = ''EXP001'' \<and> Account credit = ''PRE001'' \<and>
              Account debit \<noteq> Account credit \<and>
              0 < Amount debit \<and> Amount debit + Amount credit = 0 \<and>
              Date credit = Date debit \<and> Description credit = Description debit \<and>
              Reference credit = Reference debit \<and>
              Description debit = ''Prepayment amortisation for '' @
                format_val (row_get (columns df) (rs ! i) ''Prepayment Item'' (Str ''Unknown Item'')) \<and>
              Reference debit = reference_text (row_get (columns df) (rs ! i) ''Reference'' NA)))"
proof -
  let ?P = "\<lambda>row. 5 / 1000 < \<bar>amortization (columns df) (strftime_b_y dt) row\<bar>"
  let ?rs = "filter ?P (data df)"
  define D where "D = (\<lambda>row.
    \<lparr>Date = strftime_dmY (relativedelta_day31 dt),
      Description = ''Prepayment amortisation for '' @
        format_val (row_get (columns df) row ''Prepayment Item'' (Str ''Unknown Item'')),
      Reference = reference_text (row_get (columns df) row ''Reference'' NA),
      Account = ''EXP001'',
      Amount = \<bar>round2 (amortization (columns df) (strftime_b_y dt) row)\<bar>\<rparr>)"
  define C where "C = (\<lambda>row.
    \<lparr>Date = strftime_dmY (relativedelta_day31 dt),
      Description = ''Prepayment amortisation for '' @
        format_val (row_get (columns df) row ''Prepayment Item'' (Str ''Unknown Item'')),
      Reference = reference_text (row_get (columns df) row ''Reference'' NA),
      Account = ''PRE001'',
      Amount = - \<bar>round2 (amortization (columns df) (strftime_b_y dt) row)\<bar>\<rparr>)"
  define es where "es = concat (map (\<lambda>r. [D r, C r]) ?rs)"
  have rp: "record_postings (strftime_dmY (relativedelta_day31 dt)) (strftime_b_y dt) (columns df) =
      (\<lambda>row. if ?P row then [D row, C row] else [])"
    by (rule ext) (simp add: record_postings_def D_def C_def)
  have g: "generate_accounting_entries df mc t = Inr es"
    unfolding generate_schedule_records [OF assms] es_def rp
    by (simp only: concat_if_filter)
  have len: "length es = 2 * length ?rs"
    unfolding es_def by (rule length_concat_pairs)
  have pair: "Account (es ! (2 * i)) = ''EXP001'' \<and> Account (es ! (2 * i + 1)) = ''PRE001'' \<and>
      Account (es ! (2 * i)) \<noteq> Account (es ! (2 * i + 1)) \<and>
      0 < Amount (es ! (2 * i)) \<and> Amount (es ! (2 * i)) + Amount (es ! (2 * i + 1)) = 0 \<and>
      Date (es ! (2 * i + 1)) = Date (es ! (2 * i)) \<and>
      Description (es ! (2 * i + 1)) = Description (es ! (2 * i)) \<and>
      Reference (es ! (2 * i + 1)) = Reference (es ! (2 * i)) \<and>
      Description (es ! (2 * i)) = ''Prepayment amortisation for '' @
        format_val (row_get (columns df) (?rs ! i) ''Prepayment Item'' (Str ''Unknown Item'')) \<and>
      Reference (es ! (2 * i)) = reference_text (row_get (columns df) (?rs ! i) ''Reference'' NA)"
    if i: "i < length ?rs" for i
  proof -
    from i have "?rs ! i \<in> set ?rs" by (rule nth_mem)
    then have "?P (?rs ! i)" by simp
    then have pos: "0 < \<bar>round2 (amortization (columns df) (strftime_b_y dt) (?rs ! i))\<bar>"
      by (rule round2_pos)
    from nth_concat_pairs [OF i, of D C]
    have d: "es ! (2 * i) = D (?rs ! i)" and c: "es ! (2 * i + 1) = C (?rs ! i)"
      unfolding es_def by simp_all
    show ?thesis
      unfolding d c using pos by (simp add: D_def C_def)
  qed
  from g len pair show ?thesis
    by (simp add: Let_def)
qed

theorem balanced_pairs_in_record_order_witness:
  "strptime_Ym ''2024-01'' = Inr (2024, 1) \<and>
   strftime_b_y (2024, 1) \<in> set example_months \<and>
   list_all (schedule_record (columns example_schedule) (strftime_b_y (2024, 1)))
     (data example_schedule) \<and>
   (\<exists>es. generate_accounting_entries example_schedule example_months ''2024-01'' = Inr es \<and>
      length es = 4 \<and> Amount (es ! 0) + Amount (es ! 1) = 0 \<and>
      Account (es ! 2) = ''EXP001'' \<and> Account (es ! 3) = ''PRE001'')"
proof -
  have h1: "strptime_Ym ''2024-01'' = Inr (2024, 1)" by code_simp
  have h2: "strftime_b_y (2024, 1) \<in> set example_months" by code_simp
  have h3: "\<forall>row\<in>set (data example_schedule).
      schedule_record (columns example_schedule) (strftime_b_y (2024, 1)) row" by code_simp
  have n: "length (filter (\<lambda>row. 5 / 1000 <
      \<bar>amortization (columns example_schedule) (strftime_b_y (2024, 1)) row\<bar>)
      (data example_schedule)) = 2" by code_simp
  from balanced_pairs_in_record_order [OF h1 h2 h3] n
  obtain es where e: "generate_accounting_entries example_schedule example_months ''2024-01'' = Inr es"
    and l: "length es = 4"
    and a: "\<forall>i<2. Account (es ! (2 * i)) = ''EXP001'' \<and> Account (es ! (2 * i + 1)) = ''PRE001'' \<and>
       Amount (es ! (2 * i)) + Amount (es ! (2 * i + 1)) = 0"
    by (auto simp: Let_def)
  from a [rule_format, of 0] a [rule_format, of 1]
  have "Amount (es ! 0) + Amount (es ! 1) = 0 \<and> Account (es ! 2) = ''EXP001'' \<and>
      Account (es ! 3) = ''PRE001''"
    by simp
  moreover from h3 have "list_all (schedule_record (columns example_schedule) (strftime_b_y (2024, 1)))
     (data example_schedule)" by (simp only: list_all_iff)
  ultimately show ?thesis using h1 h2 e l by blast
qed

subsection \<open>The target period and the posting date\<close>




lemma match_month_range:
  assumes "match_month s = Some (m, r)"
  shows "1 \<le> m \<and> m \<le> 12"
proof (cases s)
  case Nil
  with assms show ?thesis by (simp add: match_month_def)
next
  case (Cons c1 r1)
  show ?thesis
  proof (cases r1)
    case Nil
    with Cons assms show ?thesis
      by (auto simp: match_month_def digit_val_def split: if_splits)
  next
    case (Cons c2 r2)
    with \<open>s = c1 # r1\<close> assms show ?thesis
      by (auto simp: match_month_def digit_val_def split: if_splits)
  qed
qed


lemma digit_char_numeral:
  "digit_char 0 = CHR ''0''" "digit_char 1 = CHR ''1''" "digit_char 2 = CHR ''2''"
  "digit_char 3 = CHR ''3''" "digit_char 4 = CHR ''4''" "digit_char 5 = CHR ''5''"
  "digit_char 6 = CHR ''6''" "digit_char 7 = CHR ''7''" "digit_char 8 = CHR ''8''"
  "digit_char 9 = CHR ''9''" "digit_char (Suc 0) = CHR ''1''"
  by code_simp+

lemma str_nat_lt10: "n < 10 \<Longrightarrow> str_nat n = [digit_char n]"
  by (subst str_nat.simps) simp

lemma str_nat_lt100:
  "10 \<le> n \<Longrightarrow> n < 100 \<Longrightarrow> str_nat n = [digit_char (n div 10), digit_char (n mod 10)]"
  by (subst str_nat.simps) (simp add: str_nat_lt10)

lemma month_spellings:
  assumes "1 \<le> m" "m \<le> 12"
  shows "match_month (pad2 m) = Some (m, []) \<and> match_month (str_nat m) = Some (m, [])"
proof -
  from assms have "m = 1 \<or> m = 2 \<or> m = 3 \<or> m = 4 \<or> m = 5 \<or> m = 6 \<or>
      m = 7 \<or> m = 8 \<or> m = 9 \<or> m = 10 \<or> m = 11 \<or> m = 12" by presburger
  then show ?thesis
    by (elim disjE)
      (simp_all add: pad2_def str_nat_lt10 str_nat_lt100 digit_char_numeral match_month_def
         digit_val_def)
qed

lemma match_month_spelling:
  assumes "match_month ms = Some (m, [])"
  shows "ms = pad2 m \<or> ms = str_nat m"
proof (cases ms)
  case Nil
  with assms show ?thesis by (simp add: match_month_def)
next
  case (Cons c1 r1)
  show ?thesis
  proof (cases r1)
    case Nil
    with Cons assms show ?thesis
      by (auto simp: match_month_def digit_val_def str_nat_lt10 digit_char_numeral
          split: if_splits)
  next
    case (Cons c2 r2)
    with \<open>ms = c1 # r1\<close> assms show ?thesis
      by (auto simp: match_month_def digit_val_def pad2_def str_nat_lt10 str_nat_lt100
          digit_char_numeral split: if_splits)
  qed
qed

lemma strptime_Ym_accepts:
  assumes "length ds = 4" "list_all isdigit_char ds" "digits_val ds \<noteq> 0" "1 \<le> m" "m \<le> 12"
  shows "strptime_Ym (ds @ ''-'' @ pad2 m) = Inr (digits_val ds, m)"
    and "strptime_Ym (ds @ ''-'' @ str_nat m) = Inr (digits_val ds, m)"
  using assms month_spellings [OF assms(4,5)]
  by (simp_all add: strptime_Ym_def nth_append)

lemma strptime_Ym_accepted_shape:
  assumes "strptime_Ym s = Inr (y, m)"
  shows "\<exists>ds. length ds = 4 \<and> list_all isdigit_char ds \<and> digits_val ds = y \<and> y \<noteq> 0 \<and>
      1 \<le> m \<and> m \<le> 12 \<and> (s = ds @ ''-'' @ pad2 m \<or> s = ds @ ''-'' @ str_nat m)"
proof -
  from assms have len: "5 \<le> length s" and dig: "list_all isdigit_char (take 4 s)"
    and dash: "s ! 4 = CHR ''-''"
    by (auto simp: strptime_Ym_def split: if_splits)
  from assms have mm: "match_month (drop 5 s) = Some (m, [])"
    and y: "y = digits_val (take 4 s)" and nz: "digits_val (take 4 s) \<noteq> 0"
    by (auto simp: strptime_Ym_def split: if_splits option.splits)
  from len have "s = take 4 s @ s ! 4 # drop (Suc 4) s"
    by (intro id_take_nth_drop) simp
  with dash have s: "s = take 4 s @ ''-'' @ drop 5 s" by simp
  from len have l4: "length (take 4 s) = 4" by simp
  from match_month_range [OF mm] have r: "1 \<le> m \<and> m \<le> 12" .
  from match_month_spelling [OF mm] s
  have "s = take 4 s @ ''-'' @ pad2 m \<or> s = take 4 s @ ''-'' @ str_nat m" by metis
  with l4 dig y nz r show ?thesis by blast
qed














subsection \<open>Threshold and rounding\<close>





subsection \<open>A malformed target period\<close>

text \<open>
  Claim C1, as stated, fails: for the malformed periods \<^verbatim>\<open>2024/05\<close> and
  \<^verbatim>\<open>May-2024\<close> generation does not fail but returns the empty list, which is also
  what it returns for the well-formed period \<^verbatim>\<open>2030-01\<close> that the schedule lacks.
\<close>

theorem malformed_period_counterexample:
  "strptime_Ym ''2024/05'' = Inl ValueError \<and>
   strptime_Ym ''May-2024'' = Inl ValueError \<and>
   strptime_Ym ''2030-01'' = Inr (2030, 1) \<and>
   generate_accounting_entries example_schedule example_months ''2024/05'' = Inr [] \<and>
   generate_accounting_entries example_schedule example_months ''May-2024'' = Inr [] \<and>
   generate_accounting_entries example_schedule example_months ''2030-01'' = Inr []"
  by code_simp

text \<open>
  Claim C1, amended. When the period parser rejects the target period, generation returns
  the empty list, and that is the value it returns for every accepted period that is
  no month column of the schedule: the two outcomes are the same returned value.
\<close>

theorem malformed_period_returns_empty:
  assumes "strptime_Ym s = Inl e"
  shows "generate_accounting_entries df mc s = Inr [] \<and>
     (\<forall>s' dt. strptime_Ym s' = Inr dt \<and> strftime_b_y dt \<notin> set mc \<longrightarrow>
        generate_accounting_entries df mc s' = generate_accounting_entries df mc s)"
  using assms strptime_Ym_raises [OF assms]
  by (auto simp: generate_accounting_entries_def Let_def)

theorem malformed_period_returns_empty_witness:
  "strptime_Ym ''2024/05'' = Inl ValueError \<and>
   generate_accounting_entries example_schedule example_months ''2024/05'' = Inr [] \<and>
   generate_accounting_entries example_schedule example_months ''2030-01'' =
     generate_accounting_entries example_schedule example_months ''2024/05''"
proof -
  have h: "strptime_Ym ''2024/05'' = Inl ValueError" by code_simp
  have p: "strptime_Ym ''2030-01'' = Inr (2030, 1) \<and> strftime_b_y (2030, 1) \<notin> set example_months"
    by code_simp
  from malformed_period_returns_empty [OF h, of example_schedule example_months] p h
  show ?thesis by blast
qed

section \<open>Properties of the loader\<close>

subsection \<open>Month-column detection\<close>

lemma month_column_examples:
  "\<not> is_month_column ''Total'' \<and> \<not> is_month_column ''ABC-2024'' \<and>
   is_month_column ''Jan-24'' \<and> is_month_column ''Dec-99''"
  by code_simp

lemma isalpha_char_not_dash: "isalpha_char c \<Longrightarrow> c \<noteq> CHR ''-''"
  by (auto simp: isalpha_char_def Let_def)

lemma isdigit_char_not_dash: "isdigit_char c \<Longrightarrow> c \<noteq> CHR ''-''"
  by (auto simp: isdigit_char_def Let_def)

lemma length6_cases:
  assumes "length s = 6"
  obtains a b c d e f where "s = [a, b, c, d, e, f]"
proof -
  from assms obtain a s1 where 1: "s = a # s1" by (cases s) auto
  with assms obtain b s2 where 2: "s1 = b # s2" by (cases s1) auto
  with 1 assms obtain c s3 where 3: "s2 = c # s3" by (cases s2) auto
  with 1 2 assms obtain d s4 where 4: "s3 = d # s4" by (cases s3) auto
  with 1 2 3 assms obtain e s5 where 5: "s4 = e # s5" by (cases s4) auto
  with 1 2 3 4 assms obtain f s6 where 6: "s5 = f # s6" by (cases s5) auto
  with 1 2 3 4 5 assms have "s6 = []" by simp
  with 1 2 3 4 5 6 that show ?thesis by blast
qed

lemma month_label_spec_accepted:
  assumes "month_label_spec col"
  shows "is_month_column col"
proof -
  from assms have "length col = 6" by (simp add: month_label_spec_def)
  then obtain a b c d e f where col: "col = [a, b, c, d, e, f]" by (rule length6_cases)
  with assms have "d = CHR ''-''" "isalpha_char a" "isalpha_char b" "isalpha_char c"
      "isdigit_char e" "isdigit_char f"
    by (simp_all add: month_label_spec_def)
  then show ?thesis
    unfolding col is_month_column_def
    by (simp add: isalpha_def isdigit_def isalpha_char_not_dash isdigit_char_not_dash)
qed

text \<open>
  Claim C2. The detection rule is wider than the specified one: the labels
  \<^verbatim>\<open>Ab-123\<close> (two letters, three digits) and \<^verbatim>\<open>A-1-2x\<close> (two dashes) are
  classified as month columns, although neither has three alphabetic characters before a
  single dash and two numeric ones after it. Every label of the specified shape is
  accepted (\<open>month_label_spec_accepted\<close>), and the four labels the claim names are
  classified as it says (\<open>month_column_examples\<close>).
\<close>

theorem month_column_accepts_malformed_label:
  "is_month_column ''Ab-123'' \<and> \<not> month_label_spec ''Ab-123'' \<and>
   is_month_column ''A-1-2x'' \<and> \<not> month_label_spec ''A-1-2x''"
  by code_simp

subsection \<open>Evaluating the loader on the example files\<close>

lemmas load_eval = load_try_def read_csv_def read_cell_def na_values_def iloc_last_first_def drop_tail_def
  rename_def rename_label_def coerce_reference_def column_def row_get_def to_numeric_def parse_number_def
  parse_unsigned_def isdigit_char_def digits_val_def digit_val_def cast_Int64_def
  assign_column_def assign_scalar_def is_month_column_def isalpha_def isdigit_def isalpha_char_def
  coerce_month_def fillna0_def Let_def




lemma floor_half: "\<lfloor>925 / 2 :: rat\<rfloor> = 462"
  by (simp add: floor_eq_iff)

lemma load_try_example_fractional: "load_try parse_number example_fractional = Inl TypeError"
  by (simp add: example_fractional_def load_eval floor_half)

lemma load_try_example_whole:
  "load_try parse_number example_whole =
     Inr (\<lparr>columns = [''Prepayment Item'', ''Reference'', ''Jan-24''],
            data = [[Str ''Insurance'', Int64 1001, Float64 (- 100)],
                    [Str ''Rent'', Int64 462, Float64 (- 50)]]\<rparr>,
          [''Jan-24''])"
  by (simp add: example_whole_def load_eval)

lemma load_try_example_no_reference:
  "load_try parse_number example_no_reference =
     Inr (\<lparr>columns = [''Prepayment Item'', ''Jan-24'', ''Reference''],
            data = [[Str ''Insurance'', Float64 (- 100), Str ''N/A'']]\<rparr>,
          [''Jan-24''])"
  by (simp add: example_no_reference_def load_eval)

lemma load_try_example_no_months: "load_try parse_number example_no_months = Inl ValueError"
  by (simp add: example_no_months_def load_eval)

lemma load_try_Missing: "load_try parse_number Missing = Inl FileNotFoundError"
  by (simp add: load_try_def read_csv_def)

lemma load_try_empty: "load_try parse_number (Csv []) = Inl EmptyDataError"
  by (simp add: load_try_def read_csv_def)

subsection \<open>Failure outcomes\<close>

lemma load_Some_iff: "load_prepayment_schedule num src = Some r \<longleftrightarrow> load_try num src = Inr r"
proof (cases "load_try num src")
  case (Inl e)
  then show ?thesis by (cases e) (simp_all add: load_prepayment_schedule_def)
next
  case (Inr r')
  then show ?thesis by (simp add: load_prepayment_schedule_def)
qed

text \<open>
  Claim C6, as stated, fails: a missing file, an empty file and a file without month
  columns raise three different exceptions inside the loader, and the loader returns the
  same value for all three.
\<close>

theorem loader_failures_counterexample:
  "load_try parse_number Missing = Inl FileNotFoundError \<and>
   load_try parse_number (Csv []) = Inl EmptyDataError \<and>
   load_try parse_number example_no_months = Inl ValueError \<and>
   load_prepayment_schedule parse_number Missing = load_prepayment_schedule parse_number (Csv []) \<and>
   load_prepayment_schedule parse_number (Csv []) = load_prepayment_schedule parse_number example_no_months"
  by (simp add: load_try_Missing load_try_empty load_try_example_no_months
        load_prepayment_schedule_def)

text \<open>
  Claim C6, amended. Whatever exception the body of the loader raises, the loader returns
  the one failure value \<open>None\<close> (the pair \<^verbatim>\<open>None, None\<close> of the source); the returned
  value carries no category.
\<close>

theorem loader_failure_is_untagged:
  assumes "load_try num src = Inl e"
  shows "load_prepayment_schedule num src = None"
  using assms by (cases e) (simp_all add: load_prepayment_schedule_def)

theorem loader_failure_is_untagged_witness:
  "load_try parse_number Missing = Inl FileNotFoundError \<and> load_prepayment_schedule parse_number Missing = None \<and>
   load_try parse_number (Csv []) = Inl EmptyDataError \<and> load_prepayment_schedule parse_number (Csv []) = None \<and>
   load_try parse_number example_no_months = Inl ValueError \<and> load_prepayment_schedule parse_number example_no_months = None"
  using loader_failure_is_untagged [OF load_try_Missing] loader_failure_is_untagged [OF load_try_empty]
    loader_failure_is_untagged [OF load_try_example_no_months]
  by (simp add: load_try_Missing load_try_empty load_try_example_no_months)

subsection \<open>Updating a column of a frame\<close>

lemma map_of_zip_overwrite:
  "length cols = length row \<Longrightarrow>
   map_of (zip cols (map2 (\<lambda>l x. if l = c then v else x) cols row)) k =
     (if k = c then (if c \<in> set cols then Some v else None) else map_of (zip cols row) k)"
  by (induction cols row rule: list_induct2) auto

lemma map_of_zip_append:
  "length cols = length row \<Longrightarrow> c \<notin> set cols \<Longrightarrow>
   map_of (zip (cols @ [c]) (row @ [v])) k =
     (if k = c then Some v else map_of (zip cols row) k)"
  by (induction cols row rule: list_induct2) auto

lemma rectangular_nth:
  "rectangular df \<Longrightarrow> i < length (data df) \<Longrightarrow> length (data df ! i) = length (columns df)"
  by (simp add: rectangular_def list_all_length)

lemma length_data_assign_column:
  "length vs = length (data df) \<Longrightarrow> length (data (assign_column df c vs)) = length (data df)"
  by (simp add: assign_column_def)

lemma columns_assign_column:
  "columns (assign_column df c vs) = (if c \<in> set (columns df) then columns df else columns df @ [c])"
  by (simp add: assign_column_def)

lemma rectangular_assign_column:
  assumes "rectangular df" "length vs = length (data df)"
  shows "rectangular (assign_column df c vs)"
  using assms
  by (auto simp: rectangular_def assign_column_def list_all_length)

lemma row_get_assign_column:
  assumes r: "rectangular df" and l: "length vs = length (data df)" and i: "i < length (data df)"
  shows "row_get (columns (assign_column df c vs)) (data (assign_column df c vs) ! i) k d =
     (if k = c then vs ! i else row_get (columns df) (data df ! i) k d)"
proof -
  from r i have len: "length (columns df) = length (data df ! i)"
    by (simp add: rectangular_nth)
  show ?thesis
  proof (cases "c \<in> set (columns df)")
    case True
    with l i have "data (assign_column df c vs) ! i =
        map2 (\<lambda>l x. if l = c then vs ! i else x) (columns df) (data df ! i)"
      by (simp add: assign_column_def)
    with True show ?thesis
      by (simp add: row_get_def columns_assign_column map_of_zip_overwrite [OF len])
  next
    case False
    with l i have "data (assign_column df c vs) ! i = data df ! i @ [vs ! i]"
      by (simp add: assign_column_def)
    with False show ?thesis
      by (simp add: row_get_def columns_assign_column map_of_zip_append [OF len])
  qed
qed

lemma length_column: "length (column df c) = length (data df)"
  by (simp add: column_def)

lemma length_data_coerce_month: "length (data (coerce_month num c df)) = length (data df)"
  by (simp add: coerce_month_def length_data_assign_column length_column)

lemma rectangular_coerce_month: "rectangular df \<Longrightarrow> rectangular (coerce_month num c df)"
  by (simp add: coerce_month_def rectangular_assign_column length_column)

lemma columns_coerce_month:
  "c \<in> set (columns df) \<Longrightarrow> columns (coerce_month num c df) = columns df"
  by (simp add: coerce_month_def columns_assign_column)

lemma row_get_coerce_month:
  assumes "rectangular df" "i < length (data df)"
  shows "row_get (columns (coerce_month num c df)) (data (coerce_month num c df) ! i) k d =
     (if k = c then fillna0 (to_numeric num (row_get (columns df) (data df ! i) c NaN))
      else row_get (columns df) (data df ! i) k d)"
  using assms
  by (simp add: coerce_month_def row_get_assign_column length_column) (simp add: column_def)

lemma fold_coerce_month_frame:
  "rectangular df \<Longrightarrow> set cs \<subseteq> set (columns df) \<Longrightarrow>
   rectangular (fold (coerce_month num) cs df) \<and>
   columns (fold (coerce_month num) cs df) = columns df \<and>
   length (data (fold (coerce_month num) cs df)) = length (data df)"
proof (induction cs arbitrary: df)
  case Nil
  then show ?case by simp
next
  case (Cons c cs)
  from Cons.prems have c: "c \<in> set (columns df)" and cs: "set cs \<subseteq> set (columns df)" by simp_all
  have r: "rectangular (coerce_month num c df)"
    using Cons.prems(1) by (rule rectangular_coerce_month)
  have k: "columns (coerce_month num c df) = columns df"
    using c by (rule columns_coerce_month)
  from Cons.IH [OF r] cs k show ?case
    by (simp add: length_data_coerce_month)
qed

lemma fold_coerce_month_other:
  "rectangular df \<Longrightarrow> set cs \<subseteq> set (columns df) \<Longrightarrow> i < length (data df) \<Longrightarrow> k \<notin> set cs \<Longrightarrow>
   row_get (columns (fold (coerce_month num) cs df)) (data (fold (coerce_month num) cs df) ! i) k d =
     row_get (columns df) (data df ! i) k d"
proof (induction cs arbitrary: df)
  case Nil
  then show ?case by simp
next
  case (Cons c cs)
  from Cons.prems have c: "c \<in> set (columns df)" and cs: "set cs \<subseteq> set (columns df)"
    and kc: "k \<noteq> c" and kcs: "k \<notin> set cs" by auto
  have r: "rectangular (coerce_month num c df)"
    using Cons.prems(1) by (rule rectangular_coerce_month)
  have col: "columns (coerce_month num c df) = columns df"
    using c by (rule columns_coerce_month)
  have i: "i < length (data (coerce_month num c df))"
    using Cons.prems(3) by (simp add: length_data_coerce_month)
  from Cons.IH [OF r _ i kcs] cs col
  have "row_get (columns (fold (coerce_month num) cs (coerce_month num c df)))
          (data (fold (coerce_month num) cs (coerce_month num c df)) ! i) k d =
        row_get (columns (coerce_month num c df)) (data (coerce_month num c df) ! i) k d"
    by simp
  also have "\<dots> = row_get (columns df) (data df ! i) k d"
    using Cons.prems(1,3) kc by (simp add: row_get_coerce_month)
  finally show ?case by simp
qed

subsection \<open>The steps of the loader on a table\<close>

lemma astype_Int64_Inr:
  "astype_Int64 vs = Inr ws \<Longrightarrow> list_all2 (\<lambda>v w. cast_Int64 v = Inr w) vs ws"
  by (induction vs arbitrary: ws) (auto split: sum.splits)



lemma read_cell_Balance: "read_cell s = Str ''Balance'' \<longleftrightarrow> s = ''Balance''"
  by (auto simp: read_cell_def na_values_def)

lemma read_csv_table:
  assumes "hdr \<noteq> []" and "\<forall>r\<in>set body. length r = length hdr"
  shows "read_csv (Csv (j1 # j2 # hdr # body)) =
     Inr \<lparr>columns = hdr, data = map (map read_cell) body\<rparr>"
proof -
  from assms have "filter (\<lambda>l. l \<noteq> []) (hdr # body) = hdr # body"
    by (auto simp: filter_id_conv)
  moreover from assms have "\<not> list_ex (\<lambda>r. length hdr < length r) body"
    by (auto simp: list_ex_iff)
  moreover from assms have "map (\<lambda>r. map read_cell (r @ replicate (length hdr - length r) [])) body =
      map (map read_cell) body"
    by simp
  ultimately show ?thesis by (simp add: read_csv_def)
qed

lemma iloc_last_first_table:
  assumes "hdr \<noteq> []" and "\<forall>r\<in>set body. length r = length hdr" and "body \<noteq> []"
  shows "iloc_last_first \<lparr>columns = hdr, data = map (map read_cell) body\<rparr> =
     Inr (read_cell (hd (last body)))"
proof -
  from assms have "last body \<noteq> []" by (metis last_in_set length_0_conv)
  then obtain c cs where "last body = c # cs" by (cases "last body") auto
  with assms(3) show ?thesis
    by (simp add: iloc_last_first_def last_map)
qed

lemma load_try_no_rows:
  assumes "hdr \<noteq> []"
  shows "load_try num (Csv (j1 # j2 # hdr # [])) = Inl IndexError"
  using assms by (simp add: load_try_def read_csv_def iloc_last_first_def)

lemma load_try_table:
  assumes "hdr \<noteq> []" and "\<forall>r\<in>set body. length r = length hdr" and "body \<noteq> []"
  shows "load_try num (Csv (j1 # j2 # hdr # body)) =
     (case coerce_reference num
             \<lparr>columns = map rename_label hdr,
               data = map (map read_cell)
                        (if hd (last body) = ''Balance'' then butlast body else body)\<rparr> of
        Inl e \<Rightarrow> Inl e
      | Inr df3 \<Rightarrow>
          if filter is_month_column (columns df3) = [] then Inl ValueError
          else Inr (if ''Prepayment Item'' \<notin> set (columns (fold (coerce_month num) (filter is_month_column (columns df3)) df3))
                    then assign_scalar (fold (coerce_month num) (filter is_month_column (columns df3)) df3)
                           ''Prepayment Item'' (Str ''Generic Item'')
                    else fold (coerce_month num) (filter is_month_column (columns df3)) df3,
                    filter is_month_column (columns df3)))"
  unfolding load_try_def read_csv_table [OF assms(1,2)]
  by (simp add: iloc_last_first_table [OF assms] read_cell_Balance drop_tail_def rename_def
        map_butlast Let_def split: sum.splits)

lemma rectangular_table:
  assumes "\<forall>r\<in>set rows. length r = length hdr"
  shows "rectangular \<lparr>columns = map f hdr, data = map (map g) rows\<rparr>"
  using assms by (simp add: rectangular_def list_all_iff)

lemma coerce_reference_frame:
  assumes "coerce_reference num df2 = Inr df3" and "rectangular df2"
  shows "rectangular df3 \<and> length (data df3) = length (data df2) \<and>
     columns df3 = (if ''Reference'' \<in> set (columns df2) then columns df2
                    else columns df2 @ [''Reference''])"
proof (cases "''Reference'' \<in> set (columns df2)")
  case True
  with assms(1) obtain ws where ws: "astype_Int64 (map (to_numeric num) (column df2 ''Reference'')) = Inr ws"
    and df3: "df3 = assign_column df2 ''Reference'' ws"
    by (auto simp: coerce_reference_def split: if_splits sum.splits)
  from astype_Int64_Inr [OF ws] have "length ws = length (data df2)"
    by (auto dest: list_all2_lengthD simp: length_column)
  with True assms(2) show ?thesis
    unfolding df3
    by (simp add: rectangular_assign_column length_data_assign_column columns_assign_column)
next
  case False
  with assms(1) have "df3 = assign_scalar df2 ''Reference'' (Str ''N/A'')"
    by (simp add: coerce_reference_def)
  with False assms(2) show ?thesis
    by (simp add: assign_scalar_def rectangular_assign_column length_data_assign_column
          columns_assign_column)
qed

lemma load_frame:
  fixes num :: "string \<Rightarrow> rat option"
  assumes "rectangular df3"
  defines "mc \<equiv> filter is_month_column (columns df3)"
  defines "df4 \<equiv> fold (coerce_month num) mc df3"
  defines "df \<equiv> (if ''Prepayment Item'' \<notin> set (columns df4)
                 then assign_scalar df4 ''Prepayment Item'' (Str ''Generic Item'') else df4)"
  shows "length (data df) = length (data df3)"
    and "i < length (data df3) \<Longrightarrow> k \<notin> set mc \<Longrightarrow> k \<noteq> ''Prepayment Item'' \<Longrightarrow>
         row_get (columns df) (data df ! i) k d = row_get (columns df3) (data df3 ! i) k d"
proof -
  have sub: "set mc \<subseteq> set (columns df3)" by (auto simp: mc_def)
  from fold_coerce_month_frame [OF assms(1) sub]
  have r4: "rectangular df4" and c4: "columns df4 = columns df3"
    and l4: "length (data df4) = length (data df3)"
    by (simp_all add: df4_def)
  show "length (data df) = length (data df3)"
    by (simp add: df_def assign_scalar_def length_data_assign_column l4)
  assume i: "i < length (data df3)" and k: "k \<notin> set mc" "k \<noteq> ''Prepayment Item''"
  have "row_get (columns df) (data df ! i) k d = row_get (columns df4) (data df4 ! i) k d"
    using r4 i k(2) by (simp add: df_def assign_scalar_def row_get_assign_column l4)
  also have "\<dots> = row_get (columns df3) (data df3 ! i) k d"
    unfolding df4_def using assms(1) sub i k(1) by (rule fold_coerce_month_other)
  finally show "row_get (columns df) (data df ! i) k d = row_get (columns df3) (data df3 ! i) k d" .
qed


lemma not_month_Reference: "\<not> is_month_column ''Reference''"
  by (simp add: is_month_column_def)

lemma row_get_table_cell:
  assumes "length cols = length r"
  shows "row_get cols (map f r) k d = d \<or>
     (\<exists>j<length cols. cols ! j = k \<and> row_get cols (map f r) k d = f (r ! j))"
proof (cases "map_of (zip cols (map f r)) k")
  case None
  then show ?thesis by (simp add: row_get_def)
next
  case (Some x)
  then have "(k, x) \<in> set (zip cols (map f r))" by (rule map_of_SomeD)
  then obtain j where "j < length cols" "j < length r" "cols ! j = k" "map f r ! j = x"
    by (auto simp: in_set_zip)
  with Some show ?thesis by (auto simp: row_get_def)
qed



lemma load_table_success:
  assumes load: "load_prepayment_schedule num (Csv (j1 # j2 # hdr # body)) = Some (df, mc)"
    and hdr: "hdr \<noteq> []" and rect: "\<forall>r\<in>set body. length r = length hdr"
  shows "\<exists>df3.
    coerce_reference num \<lparr>columns = map rename_label hdr,
        data = map (map read_cell) (if hd (last body) = ''Balance'' then butlast body else body)\<rparr> = Inr df3 \<and>
    mc = filter is_month_column (columns df3) \<and>
    length (data df) = length (data df3) \<and>
    length (data df3) = length (if hd (last body) = ''Balance'' then butlast body else body) \<and>
    rectangular df3 \<and>
    (\<forall>i k d. i < length (data df3) \<longrightarrow> k \<notin> set mc \<longrightarrow> k \<noteq> ''Prepayment Item'' \<longrightarrow>
           row_get (columns df) (data df ! i) k d = row_get (columns df3) (data df3 ! i) k d)"
proof -
  let ?rows = "if hd (last body) = ''Balance'' then butlast body else body"
  let ?df2 = "\<lparr>columns = map rename_label hdr, data = map (map read_cell) ?rows\<rparr>"
  from load have lt: "load_try num (Csv (j1 # j2 # hdr # body)) = Inr (df, mc)"
    by (simp add: load_Some_iff)
  with hdr have ne: "body \<noteq> []" by (auto simp: load_try_no_rows)
  from lt obtain df3 where c: "coerce_reference num ?df2 = Inr df3"
    and mc: "mc = filter is_month_column (columns df3)"
    and df: "df = (if ''Prepayment Item'' \<notin> set (columns (fold (coerce_month num) (filter is_month_column (columns df3)) df3))
                   then assign_scalar (fold (coerce_month num) (filter is_month_column (columns df3)) df3)
                          ''Prepayment Item'' (Str ''Generic Item'')
                   else fold (coerce_month num) (filter is_month_column (columns df3)) df3)"
    unfolding load_try_table [OF hdr rect ne]
    by (auto split: sum.splits if_splits)
  have "\<forall>r\<in>set ?rows. length r = length hdr"
    using rect by (auto dest: in_set_butlastD)
  then have r2: "rectangular ?df2" by (rule rectangular_table)
  from coerce_reference_frame [OF c r2]
  have r3: "rectangular df3" and l3: "length (data df3) = length ?rows" by simp_all
  have l: "length (data df) = length (data df3)"
    unfolding df by (rule load_frame(1) [OF r3])
  have same: "row_get (columns df) (data df ! i) k d = row_get (columns df3) (data df3 ! i) k d"
    if "i < length (data df3)" "k \<notin> set mc" "k \<noteq> ''Prepayment Item''" for i k d
    unfolding df using that unfolding mc by (rule load_frame(2) [OF r3])
  from c mc l l3 r3 same show ?thesis by blast
qed

subsection \<open>Header skip and summary row\<close>




subsection \<open>The reference column\<close>

lemma map_of_zip_unique:
  "length ks = length vs \<Longrightarrow> count_list ks k \<le> 1 \<Longrightarrow> j < length ks \<Longrightarrow> ks ! j = k \<Longrightarrow>
   map_of (zip ks vs) k = Some (vs ! j)"
proof (induction ks vs arbitrary: j rule: list_induct2)
  case Nil
  then show ?case by simp
next
  case (Cons a ks v vs)
  show ?case
  proof (cases j)
    case 0
    with Cons.prems show ?thesis by simp
  next
    case (Suc j')
    with Cons.prems have j': "j' < length ks" "ks ! j' = k" by simp_all
    then have "k \<in> set ks" by auto
    then have "count_list ks k \<noteq> 0" by (simp add: count_list_0_iff)
    with Cons.prems(1) have ak: "a \<noteq> k" and c: "count_list ks k \<le> 1"
      by (auto split: if_splits)
    from Cons.IH [OF c j'] ak Suc show ?thesis by simp
  qed
qed

lemma coerce_reference_present:
  assumes c: "coerce_reference num df2 = Inr df3" and r: "rectangular df2"
    and p: "''Reference'' \<in> set (columns df2)" and i: "i < length (data df2)"
  shows "cast_Int64 (to_numeric num (row_get (columns df2) (data df2 ! i) ''Reference'' NaN)) =
           Inr (row_get (columns df3) (data df3 ! i) ''Reference'' d)"
    and "count_list (columns df2) ''Reference'' \<le> 1"
proof -
  from c p obtain ws where ws: "astype_Int64 (map (to_numeric num) (column df2 ''Reference'')) = Inr ws"
    and df3: "df3 = assign_column df2 ''Reference'' ws"
    and one: "count_list (columns df2) ''Reference'' \<le> 1"
    by (auto simp: coerce_reference_def split: if_splits sum.splits)
  from astype_Int64_Inr [OF ws]
  have l2: "list_all2 (\<lambda>v w. cast_Int64 v = Inr w) (map (to_numeric num) (column df2 ''Reference'')) ws" .
  then have len: "length ws = length (data df2)"
    by (auto dest: list_all2_lengthD simp: length_column)
  have "i < length (map (to_numeric num) (column df2 ''Reference''))"
    using i by (simp add: length_column)
  with l2 have "cast_Int64 (map (to_numeric num) (column df2 ''Reference'') ! i) = Inr (ws ! i)"
    by (rule list_all2_nthD)
  with i have "cast_Int64 (to_numeric num (row_get (columns df2) (data df2 ! i) ''Reference'' NaN)) =
      Inr (ws ! i)"
    by (simp add: column_def)
  then show "cast_Int64 (to_numeric num (row_get (columns df2) (data df2 ! i) ''Reference'' NaN)) =
           Inr (row_get (columns df3) (data df3 ! i) ''Reference'' d)"
    unfolding df3 using r len i by (simp add: row_get_assign_column)
  from one show "count_list (columns df2) ''Reference'' \<le> 1" .
qed

lemma coerce_reference_absent:
  assumes c: "coerce_reference num df2 = Inr df3" and r: "rectangular df2"
    and p: "''Reference'' \<notin> set (columns df2)" and i: "i < length (data df2)"
  shows "row_get (columns df3) (data df3 ! i) ''Reference'' d = Str ''N/A''"
proof -
  from c p have "df3 = assign_column df2 ''Reference'' (replicate (length (data df2)) (Str ''N/A''))"
    by (simp add: coerce_reference_def assign_scalar_def)
  with r i show ?thesis by (simp add: row_get_assign_column)
qed




lemma na_values_not_numeric: "s \<in> set na_values \<Longrightarrow> to_numeric num (read_cell s) = NaN"
  by (simp add: read_cell_def to_numeric_def)

lemma stored_reference:
  assumes load: "load_prepayment_schedule num (Csv (j1 # j2 # hdr # body)) = Some (df, mc)"
    and hdr: "hdr \<noteq> []" and rect: "\<forall>r\<in>set body. length r = length hdr"
    and i: "i < length (data df)"
  shows "i < length body"
    and "\<And>j. j < length hdr \<Longrightarrow> rename_label (hdr ! j) = ''Reference'' \<Longrightarrow>
         cast_Int64 (to_numeric num (read_cell (body ! i ! j))) =
           Inr (row_get (columns df) (data df ! i) ''Reference'' d)"
    and "''Reference'' \<notin> set (map rename_label hdr) \<Longrightarrow>
         row_get (columns df) (data df ! i) ''Reference'' d = Str ''N/A''"
proof -
  let ?rows = "if hd (last body) = ''Balance'' then butlast body else body"
  let ?df2 = "\<lparr>columns = map rename_label hdr, data = map (map read_cell) ?rows\<rparr>"
  from load_table_success [OF load hdr rect]
  obtain df3 where c: "coerce_reference num ?df2 = Inr df3"
    and mc: "mc = filter is_month_column (columns df3)"
    and l: "length (data df) = length (data df3)"
    and l3: "length (data df3) = length ?rows"
    and r3: "rectangular df3"
    and same: "\<forall>i k d. i < length (data df3) \<longrightarrow> k \<notin> set mc \<longrightarrow> k \<noteq> ''Prepayment Item'' \<longrightarrow>
           row_get (columns df) (data df ! i) k d = row_get (columns df3) (data df3 ! i) k d"
    by (elim exE conjE)
  from i l l3 have irows: "i < length ?rows" by simp
  then show ib: "i < length body" by (auto split: if_splits)
  have row: "?rows ! i = body ! i"
    using irows by (auto simp: nth_butlast)
  from irows have "?rows ! i \<in> set ?rows" by (rule nth_mem)
  with rect have len: "length (body ! i) = length hdr"
    unfolding row by (auto dest: in_set_butlastD split: if_splits)
  have "\<forall>r\<in>set ?rows. length r = length hdr"
    using rect by (auto dest: in_set_butlastD)
  then have r2: "rectangular ?df2" by (rule rectangular_table)
  have i2: "i < length (data ?df2)" using irows by simp
  have d2: "data ?df2 ! i = map read_cell (body ! i)"
    using irows row by simp
  have notmc: "''Reference'' \<notin> set mc"
    by (simp add: mc not_month_Reference)
  have st: "row_get (columns df) (data df ! i) ''Reference'' d =
      row_get (columns df3) (data df3 ! i) ''Reference'' d"
    using i l notmc same by simp
  show "cast_Int64 (to_numeric num (read_cell (body ! i ! j))) =
           Inr (row_get (columns df) (data df ! i) ''Reference'' d)"
    if j: "j < length hdr" "rename_label (hdr ! j) = ''Reference''" for j
  proof -
    from j(1) have "hdr ! j \<in> set hdr" by (rule nth_mem)
    then have "rename_label (hdr ! j) \<in> set (map rename_label hdr)" by simp
    with j(2) have p: "''Reference'' \<in> set (columns ?df2)" by simp
    note cp = coerce_reference_present [OF c r2 p i2]
    from cp(2) have one: "count_list (map rename_label hdr) ''Reference'' \<le> 1" by simp
    have "map_of (zip (map rename_label hdr) (map read_cell (body ! i))) ''Reference'' =
        Some (map read_cell (body ! i) ! j)"
      using len one j by (intro map_of_zip_unique) simp_all
    with j len have "row_get (columns ?df2) (data ?df2 ! i) ''Reference'' NaN = read_cell (body ! i ! j)"
      unfolding d2 by (simp add: row_get_def)
    with cp(1) [of d] show ?thesis by (simp only: st)
  qed
  show "row_get (columns df) (data df ! i) ''Reference'' d = Str ''N/A''"
    if "''Reference'' \<notin> set (map rename_label hdr)"
  proof -
    from that have p: "''Reference'' \<notin> set (columns ?df2)" by simp
    from coerce_reference_absent [OF c r2 p i2] show ?thesis by (simp only: st)
  qed
qed

text \<open>
  Claim C5, as stated, fails: in \<open>example_fractional\<close> the reference cells
  \<^verbatim>\<open>1001\<close> and \<^verbatim>\<open>462.5\<close> both read as numbers, and neither is stored as an integer,
  because the load returns the failure value for the whole table.
\<close>

theorem reference_coercion_counterexample:
  "parse_number ''1001'' = Some 1001 \<and> parse_number ''462.5'' = Some (925 / 2) \<and>
   load_prepayment_schedule parse_number example_fractional = None"
  by (simp add: load_prepayment_schedule_def load_try_example_fractional parse_number_def
        parse_unsigned_def isdigit_char_def digits_val_def digit_val_def)



subsection \<open>A fractional reference\<close>

text \<open>
  Any table aborts in this way: if a record that is kept holds, in the reference column, a
  cell that reads as a number with a fractional part, the load returns the failure value.
\<close>

lemma fractional_reference_aborts_table:
  assumes hdr: "hdr \<noteq> []" and rect: "\<forall>r\<in>set body. length r = length hdr"
    and j: "j < length hdr" "rename_label (hdr ! j) = ''Reference''"
    and i: "i < length (if hd (last body) = ''Balance'' then butlast body else body)"
    and cell: "body ! i ! j \<notin> set na_values" "num (body ! i ! j) = Some q" "q \<noteq> of_int \<lfloor>q\<rfloor>"
  shows "load_prepayment_schedule num (Csv (j1 # j2 # hdr # body)) = None"
proof (rule ccontr)
  assume "load_prepayment_schedule num (Csv (j1 # j2 # hdr # body)) \<noteq> None"
  then obtain df mc where
    load: "load_prepayment_schedule num (Csv (j1 # j2 # hdr # body)) = Some (df, mc)"
    by auto
  from load_table_success [OF load hdr rect] i have "i < length (data df)" by auto
  from stored_reference(2) [OF load hdr rect this j, of NA] cell
  show False by (simp add: read_cell_def to_numeric_def cast_Int64_def)
qed

text \<open>
  Claim C10. In \<open>example_fractional\<close> the reference cell of the second record reads as
  462.5: the conversion to integers raises, and the load returns the failure value for
  the whole table, the first record included. With 462 in that cell
  (\<open>example_whole\<close>) the same table loads with both records.
\<close>

theorem fractional_reference_aborts_load:
  "load_try parse_number example_fractional = Inl TypeError \<and>
   load_prepayment_schedule parse_number example_fractional = None \<and>
   (\<exists>df mc. load_prepayment_schedule parse_number example_whole = Some (df, mc) \<and>
      map (\<lambda>row. row_get (columns df) row ''Reference'' NA) (data df) = [Int64 1001, Int64 462])"
  by (simp add: load_Some_iff load_try_example_fractional load_try_example_whole
        load_prepayment_schedule_def row_get_def)

subsection \<open>A source without a reference column\<close>

lemma reference_str_NA_text: "reference_str (Str ''N/A'') = Inl ValueError"
  by (simp add: reference_str_def notna_def py_int_def int_of_str_def isdigit_def isdigit_char_def)

lemma rows_loop_first_raises:
  "rows \<noteq> [] \<Longrightarrow> body (hd rows) = Inl e \<Longrightarrow> rows_loop body rows acc = Inl e"
  by (cases rows) simp_all

text \<open>
  Claim C9 does not hold of the code. When the source has no reference column, the loader
  fills the column with the string \<^verbatim>\<open>'N/A'\<close>; the generator then calls \<^verbatim>\<open>int\<close> on that
  string for the first record, and the \<^verbatim>\<open>ValueError\<close> leaves the function: for every
  such snapshot with at least one record and every target period that is a month column,
  generation raises instead of returning postings with the reference \<^verbatim>\<open>N/A\<close>.
\<close>

theorem missing_reference_column_raises:
  assumes load: "load_prepayment_schedule num (Csv (j1 # j2 # hdr # body)) = Some (df, mc)"
    and hdr: "hdr \<noteq> []" and rect: "\<forall>r\<in>set body. length r = length hdr"
    and absent: "''Reference'' \<notin> set (map rename_label hdr)"
    and rows: "data df \<noteq> []"
    and t: "strptime_Ym t = Inr dt" and col: "strftime_b_y dt \<in> set mc"
  shows "generate_accounting_entries df mc t = Inl ValueError"
proof -
  from rows have i: "0 < length (data df)" by simp
  from stored_reference(3) [OF load hdr rect i absent, of NA] rows
  have "row_get (columns df) (hd (data df)) ''Reference'' NA = Str ''N/A''"
    by (simp add: hd_conv_nth)
  then have "row_entries (strftime_dmY (relativedelta_day31 dt)) (strftime_b_y dt) (columns df)
      (hd (data df)) = Inl ValueError"
    by (simp add: row_entries_def reference_str_NA_text)
  with rows have "rows_loop (row_entries (strftime_dmY (relativedelta_day31 dt)) (strftime_b_y dt)
      (columns df)) (data df) [] = Inl ValueError"
    by (rule rows_loop_first_raises)
  with t col show ?thesis
    by (simp add: generate_accounting_entries_def Let_def)
qed

theorem missing_reference_column_raises_witness:
  "\<exists>df mc. load_prepayment_schedule parse_number example_no_reference = Some (df, mc) \<and>
     data df \<noteq> [] \<and> strptime_Ym ''2024-01'' = Inr (2024, 1) \<and>
     strftime_b_y (2024, 1) \<in> set mc \<and>
     generate_accounting_entries df mc ''2024-01'' = Inl ValueError"
proof -
  let ?df = "\<lparr>columns = [''Prepayment Item'', ''Jan-24'', ''Reference''],
               data = [[Str ''Insurance'', Float64 (- 100), Str ''N/A'']]\<rparr>"
  have l: "load_prepayment_schedule parse_number
      (Csv ([''Prepayment schedule''] # [''FY24'', ''draft''] # [''Items'', ''Jan-24''] #
            [[''Insurance'', ''-100.00'']])) = Some (?df, [''Jan-24''])"
    using load_try_example_no_reference
    by (simp add: load_Some_iff example_no_reference_def)
  have h1: "[''Items'', ''Jan-24''] \<noteq> []" by simp
  have h2: "\<forall>r\<in>set [[''Insurance'', ''-100.00'']]. length r = length [''Items'', ''Jan-24'']"
    by simp
  have h3: "''Reference'' \<notin> set (map rename_label [''Items'', ''Jan-24''])"
    by (simp add: rename_label_def)
  have h4: "data ?df \<noteq> []" by simp
  have h5: "strptime_Ym ''2024-01'' = Inr (2024, 1)" by code_simp
  have h6: "strftime_b_y (2024, 1) \<in> set [''Jan-24'']" by code_simp
  from missing_reference_column_raises [OF l h1 h2 h3 h4 h5 h6] l h4 h5 h6
  show ?thesis
    unfolding example_no_reference_def by blast
qed

section \<open>Loader and generator together\<close>

text \<open>
  The frames the loader returns for a table with a reference column consist of schedule
  records for each of their month columns, so generation over them returns for every
  target period.
\<close>

lemma coerced_is_float:
  "(\<forall>n. v \<noteq> Int64 n) \<Longrightarrow> \<exists>q. fillna0 (to_numeric num v) = Float64 q"
  by (cases v) (auto simp: fillna0_def to_numeric_def split: option.splits)

lemma fold_coerce_month_float:
  "rectangular df \<Longrightarrow> set cs \<subseteq> set (columns df) \<Longrightarrow> i < length (data df) \<Longrightarrow> k \<in> set cs \<Longrightarrow>
   \<forall>c\<in>set cs. \<forall>n. row_get (columns df) (data df ! i) c NaN \<noteq> Int64 n \<Longrightarrow>
   \<exists>q. row_get (columns (fold (coerce_month num) cs df)) (data (fold (coerce_month num) cs df) ! i) k d = Float64 q"
proof (induction cs arbitrary: df)
  case Nil
  then show ?case by simp
next
  case (Cons c cs)
  let ?df1 = "coerce_month num c df"
  from Cons.prems have c: "c \<in> set (columns df)" and cs: "set cs \<subseteq> set (columns df)" by simp_all
  have r1: "rectangular ?df1" using Cons.prems(1) by (rule rectangular_coerce_month)
  have col1: "columns ?df1 = columns df" using c by (rule columns_coerce_month)
  have i1: "i < length (data ?df1)" using Cons.prems(3) by (simp add: length_data_coerce_month)
  from Cons.prems(5) have "\<forall>n. row_get (columns df) (data df ! i) c NaN \<noteq> Int64 n" by simp
  from coerced_is_float [OF this]
  obtain q where q: "fillna0 (to_numeric num (row_get (columns df) (data df ! i) c NaN)) = Float64 q" ..
  have cell: "row_get (columns ?df1) (data ?df1 ! i) k' d' =
      (if k' = c then Float64 q else row_get (columns df) (data df ! i) k' d')" for k' d'
    using Cons.prems(1,3) by (simp add: row_get_coerce_month q)
  show ?case
  proof (cases "k \<in> set cs")
    case True
    have "\<forall>c'\<in>set cs. \<forall>n. row_get (columns ?df1) (data ?df1 ! i) c' NaN \<noteq> Int64 n"
      using Cons.prems(5) by (simp add: cell)
    from Cons.IH [OF r1 _ i1 True this] cs col1 show ?thesis by simp
  next
    case False
    with Cons.prems(4) have kc: "k = c" by simp
    from cs col1 have "set cs \<subseteq> set (columns ?df1)" by simp
    from fold_coerce_month_other [OF r1 this i1 False, where d = d and num = num]
    show ?thesis by (simp add: cell kc)
  qed
qed

lemma not_month_Prepayment_Item: "\<not> is_month_column ''Prepayment Item''"
  by (simp add: is_month_column_def)

lemma load_frame_month:
  fixes num :: "string \<Rightarrow> rat option"
  assumes r3: "rectangular df3"
  defines "mc \<equiv> filter is_month_column (columns df3)"
  defines "df4 \<equiv> fold (coerce_month num) mc df3"
  defines "df \<equiv> (if ''Prepayment Item'' \<notin> set (columns df4)
                 then assign_scalar df4 ''Prepayment Item'' (Str ''Generic Item'') else df4)"
  assumes i: "i < length (data df3)" and k: "k \<in> set mc"
    and cells: "\<forall>c\<in>set mc. \<forall>n. row_get (columns df3) (data df3 ! i) c NaN \<noteq> Int64 n"
  shows "\<exists>q. row_get (columns df) (data df ! i) k d = Float64 q"
proof -
  have sub: "set mc \<subseteq> set (columns df3)" by (auto simp: mc_def)
  from fold_coerce_month_frame [OF r3 sub]
  have r4: "rectangular df4" and l4: "length (data df4) = length (data df3)"
    by (simp_all add: df4_def)
  from k have kp: "k \<noteq> ''Prepayment Item''"
    by (auto simp: mc_def not_month_Prepayment_Item)
  have "row_get (columns df) (data df ! i) k d = row_get (columns df4) (data df4 ! i) k d"
    using r4 i kp by (simp add: df_def assign_scalar_def row_get_assign_column l4)
  moreover have "\<exists>q. row_get (columns df4) (data df4 ! i) k d = Float64 q"
    unfolding df4_def using r3 sub i k cells by (rule fold_coerce_month_float)
  ultimately show ?thesis by simp
qed

lemma coerce_reference_other:
  assumes c: "coerce_reference num df2 = Inr df3" and r: "rectangular df2"
    and i: "i < length (data df2)" and k: "k \<noteq> ''Reference''"
  shows "row_get (columns df3) (data df3 ! i) k d = row_get (columns df2) (data df2 ! i) k d"
proof (cases "''Reference'' \<in> set (columns df2)")
  case True
  with c obtain ws where ws: "astype_Int64 (map (to_numeric num) (column df2 ''Reference'')) = Inr ws"
    and df3: "df3 = assign_column df2 ''Reference'' ws"
    by (auto simp: coerce_reference_def split: if_splits sum.splits)
  from astype_Int64_Inr [OF ws] have "length ws = length (data df2)"
    by (auto dest: list_all2_lengthD simp: length_column)
  with r i k show ?thesis unfolding df3 by (simp add: row_get_assign_column)
next
  case False
  with c have "df3 = assign_column df2 ''Reference'' (replicate (length (data df2)) (Str ''N/A''))"
    by (simp add: coerce_reference_def assign_scalar_def)
  with r i k show ?thesis by (simp add: row_get_assign_column)
qed

lemma read_cell_not_Int64: "read_cell s \<noteq> Int64 n"
  by (simp add: read_cell_def)

lemma cast_Int64_result: "cast_Int64 v = Inr w \<Longrightarrow> (\<exists>n. w = Int64 n) \<or> w = NA"
  by (cases v) (auto simp: cast_Int64_def split: if_splits)

lemma loaded_records_are_schedule_records:
  assumes load: "load_prepayment_schedule num (Csv (j1 # j2 # hdr # body)) = Some (df, mc)"
    and hdr: "hdr \<noteq> []" and rect: "\<forall>r\<in>set body. length r = length hdr"
    and ref: "''Reference'' \<in> set (map rename_label hdr)"
    and row: "row \<in> set (data df)" and col: "col \<in> set mc"
  shows "schedule_record (columns df) col row"
proof -
  let ?rows = "if hd (last body) = ''Balance'' then butlast body else body"
  let ?df2 = "\<lparr>columns = map rename_label hdr, data = map (map read_cell) ?rows\<rparr>"
  from row obtain i where i: "i < length (data df)" and ri: "row = data df ! i"
    by (auto simp: in_set_conv_nth)
  from load have lt: "load_try num (Csv (j1 # j2 # hdr # body)) = Inr (df, mc)"
    by (simp add: load_Some_iff)
  with hdr have ne: "body \<noteq> []" by (auto simp: load_try_no_rows)
  from lt obtain df3 where c: "coerce_reference num ?df2 = Inr df3"
    and mc: "mc = filter is_month_column (columns df3)"
    and df: "df = (if ''Prepayment Item'' \<notin> set (columns (fold (coerce_month num) (filter is_month_column (columns df3)) df3))
                   then assign_scalar (fold (coerce_month num) (filter is_month_column (columns df3)) df3)
                          ''Prepayment Item'' (Str ''Generic Item'')
                   else fold (coerce_month num) (filter is_month_column (columns df3)) df3)"
    unfolding load_try_table [OF hdr rect ne]
    by (auto split: sum.splits if_splits)
  have rrows: "\<forall>r\<in>set ?rows. length r = length hdr"
    using rect by (auto dest: in_set_butlastD)
  then have r2: "rectangular ?df2" by (rule rectangular_table)
  from coerce_reference_frame [OF c r2]
  have r3: "rectangular df3" and l3: "length (data df3) = length ?rows" by simp_all
  have l: "length (data df) = length (data df3)"
    unfolding df by (rule load_frame(1) [OF r3])
  from i l have i3: "i < length (data df3)" by simp
  with l3 have irows: "i < length ?rows" by simp
  then have i2: "i < length (data ?df2)" by simp
  from irows have "?rows ! i \<in> set ?rows" by (rule nth_mem)
  with rrows have len: "length (map rename_label hdr) = length (?rows ! i)" by simp
  have cells: "\<forall>c\<in>set mc. \<forall>n. row_get (columns df3) (data df3 ! i) c NaN \<noteq> Int64 n"
  proof (intro ballI allI)
    fix c' n assume "c' \<in> set mc"
    then have "c' \<noteq> ''Reference''" by (auto simp: mc not_month_Reference)
    from coerce_reference_other [OF c r2 i2 this, of NaN] irows
    have e: "row_get (columns df3) (data df3 ! i) c' NaN =
        row_get (map rename_label hdr) (map read_cell (?rows ! i)) c' NaN"
      by simp
    from row_get_table_cell [OF len, of read_cell c' NaN]
    show "row_get (columns df3) (data df3 ! i) c' NaN \<noteq> Int64 n"
      unfolding e by (auto simp: read_cell_not_Int64)
  qed
  from col have col': "col \<in> set (filter is_month_column (columns df3))" by (simp add: mc)
  from cells have cells': "\<forall>c\<in>set (filter is_month_column (columns df3)).
      \<forall>n. row_get (columns df3) (data df3 ! i) c NaN \<noteq> Int64 n" by (simp add: mc)
  have amount: "\<exists>q. row_get (columns df) (data df ! i) col (Int64 0) = Float64 q"
    unfolding df by (rule load_frame_month [OF r3 i3 col' cells'])
  from ref obtain j where j: "j < length hdr" "rename_label (hdr ! j) = ''Reference''"
    by (auto simp: in_set_conv_nth)
  from stored_reference(2) [OF load hdr rect i j, of NA]
  have "(\<exists>n. row_get (columns df) (data df ! i) ''Reference'' NA = Int64 n) \<or>
      row_get (columns df) (data df ! i) ''Reference'' NA = NA"
    by (rule cast_Int64_result)
  with amount show ?thesis
    unfolding ri schedule_record_def by auto
qed

lemma generation_over_loaded_schedule:
  assumes "load_prepayment_schedule num (Csv (j1 # j2 # hdr # body)) = Some (df, mc)"
    and "hdr \<noteq> []" and "\<forall>r\<in>set body. length r = length hdr"
    and "''Reference'' \<in> set (map rename_label hdr)"
  shows "\<exists>es. generate_accounting_entries df mc t = Inr es"
proof (cases "strptime_Ym t")
  case (Inl e)
  with strptime_Ym_raises [OF Inl] show ?thesis by (simp add: generate_accounting_entries_def)
next
  case (Inr dt)
  show ?thesis
  proof (cases "strftime_b_y dt \<in> set mc")
    case False
    with Inr show ?thesis by (simp add: generate_accounting_entries_def Let_def)
  next
    case True
    have "\<forall>row\<in>set (data df). schedule_record (columns df) (strftime_b_y dt) row"
      using loaded_records_are_schedule_records [OF assms _ True] by blast
    from generate_schedule_records [OF Inr True this] show ?thesis by blast
  qed
qed

end
